theory Spec2Isabelle
  imports Main "HOL-Library.Sublist"
begin

section \<open>Python values and library calls used by the generator\<close>

text \<open>
  A Python \<^verbatim>\<open>str\<close> is modelled as a \<^typ>\<open>string\<close>: one \<^typ>\<open>char\<close> per code point,
  for the code points below 256. \<^verbatim>\<open>len\<close> is \<^const>\<open>length\<close>, slicing \<^verbatim>\<open>s[:50]\<close> is
  \<^term>\<open>take 50 s\<close>.
\<close>

definition nl :: char where
  "nl = CHR 0x0A"

definition dq :: char where
  "dq = CHR 0x22"

definition bs :: char where
  "bs = CHR 0x5C"

text \<open>The values \<^verbatim>\<open>json.loads\<close> returns. The text of a float is kept as it was read.\<close>

datatype json =
    JNull
  | JBool bool
  | JInt int
  | JFloat string
  | JStr string
  | JList "json list"
  | JDict "(string \<times> json) list"

text \<open>The exceptions the pipeline can propagate.\<close>

datatype error =
    JSONDecodeError
  | KeyError json
  | TypeError
  | AttributeError
  | TemplateNotFound string
  | AgentError string
  | OSError

text \<open>\<^verbatim>\<open>"\n".join(lines)\<close> and \<^verbatim>\<open>s.split("\n")\<close>.\<close>

fun join :: "string \<Rightarrow> string list \<Rightarrow> string" where
  "join sep [] = []"
| "join sep [l] = l"
| "join sep (l # m # ls) = l @ sep @ join sep (m # ls)"

fun split_nl :: "string \<Rightarrow> string list" where
  "split_nl [] = [[]]"
| "split_nl (c # cs) =
     (if c = nl then [] # split_nl cs
      else (case split_nl cs of [] \<Rightarrow> [[c]] | l # ls \<Rightarrow> (c # l) # ls))"

text \<open>
  \<^verbatim>\<open>template.format(**kw)\<close> for a template whose replacement fields are plain names
  (\<^verbatim>\<open>{field}\<close>): the text outside the fields is copied, a field is replaced by its
  value, and a value is not scanned again. A field with no value raises KeyError.
\<close>

function py_format :: "(string \<times> string) list \<Rightarrow> string \<Rightarrow> error + string" where
  "py_format kw [] = Inr []"
| "py_format kw (c # cs) =
     (if c = CHR ''{'' then
        (case map_of kw (takeWhile (\<lambda>x. x \<noteq> CHR ''}'') cs) of
           None \<Rightarrow> Inl (KeyError (JStr (takeWhile (\<lambda>x. x \<noteq> CHR ''}'') cs)))
         | Some v \<Rightarrow>
             (case py_format kw (drop 1 (dropWhile (\<lambda>x. x \<noteq> CHR ''}'') cs)) of
                Inl e \<Rightarrow> Inl e
              | Inr r \<Rightarrow> Inr (v @ r)))
      else (case py_format kw cs of Inl e \<Rightarrow> Inl e | Inr r \<Rightarrow> Inr (c # r)))"
  by pat_completeness auto
termination
  by (relation "measure (\<lambda>(kw, s). length s)")
     (auto simp: less_Suc_eq_le intro: order_trans [OF diff_le_self length_dropWhile_le])

text \<open>
  \<^verbatim>\<open>json.dumps\<close> of a string, with the default \<^verbatim>\<open>ensure_ascii=True\<close>: the quote and the
  backslash are escaped, the control characters have their short escapes or
  \<^verbatim>\<open>\u00xx\<close>, and so has every character outside the printable ASCII range.
\<close>

definition hex_digit :: "nat \<Rightarrow> char" where
  "hex_digit n = ''0123456789abcdef'' ! (n mod 16)"

definition escape_char :: "char \<Rightarrow> string" where
  "escape_char c =
     (if c = dq then [bs, dq]
      else if c = bs then [bs, bs]
      else if c = nl then [bs, CHR ''n'']
      else if c = CHR 0x0D then [bs, CHR ''r'']
      else if c = CHR 0x09 then [bs, CHR ''t'']
      else if c = CHR 0x0C then [bs, CHR ''f'']
      else if c = CHR 0x08 then [bs, CHR ''b'']
      else if (of_char c :: nat) < 32 \<or> 126 < (of_char c :: nat) then
        [bs, CHR ''u'', CHR ''0'', CHR ''0'',
         hex_digit ((of_char c :: nat) div 16), hex_digit (of_char c :: nat)]
      else [c])"

definition dumps_str :: "string \<Rightarrow> string" where
  "dumps_str s = [dq] @ concat (map escape_char s) @ [dq]"

definition dumps_list :: "string list \<Rightarrow> string" where
  "dumps_list ts = ''['' @ join '', '' (map dumps_str ts) @ '']''"

text \<open>\<^verbatim>\<open>json.dumps({'activated_tools': tool_names})\<close>.\<close>

definition dumps_activated :: "string list \<Rightarrow> string" where
  "dumps_activated tool_names =
     ''{'' @ dumps_str ''activated_tools'' @ '': '' @ dumps_list tool_names @ ''}''"

text \<open>
  \<^verbatim>\<open>for x in v\<close> over a value read by \<^verbatim>\<open>json.loads\<close>: a list gives its elements, a dict
  its keys, a string its characters; the other values are not iterable.
\<close>

fun py_iter :: "json \<Rightarrow> error + json list" where
  "py_iter (JList xs) = Inr xs"
| "py_iter (JDict kvs) = Inr (map (\<lambda>kv. JStr (fst kv)) kvs)"
| "py_iter (JStr s) = Inr (map (\<lambda>c. JStr [c]) s)"
| "py_iter v = Inl TypeError"

section \<open>The data model\<close>

record tool =
  tool_name :: string
  tool_description :: string

type_synonym event = string

text \<open>A path \<^verbatim>\<open>directory / file_name\<close>, kept as its two parts.\<close>

type_synonym path = "string \<times> string"

definition path_str :: "path \<Rightarrow> string" where
  "path_str p = fst p @ ''/'' @ snd p"

text \<open>
  Modelled from the spec: the task state record, class \<^verbatim>\<open>GeneratorTaskRecorder\<close> of
  \<^verbatim>\<open>utu/meta/common.py\<close>, which is not among the source files. Section 3 of the spec
  gives its fields: the requirements, the selected tools (a mapping from tool group to an
  ordered list of tool names, kept here in insertion order), the instructions, the name,
  the queue of progress events and the completion flag. A field no step has set yet holds
  no value; \<^verbatim>\<open>_run_impl_task\<close> records that a background task was scheduled.
\<close>

record recorder =
  requirements :: "string option"
  selected_tools :: "(string \<times> string list) list option"
  instructions :: "string option"
  name :: "string option"
  event_queue :: "event list"
  is_complete :: bool
  run_impl_task :: bool

definition new_recorder :: recorder where
  "new_recorder =
     \<lparr>requirements = None, selected_tools = None, instructions = None, name = None,
      event_queue = [], is_complete = False, run_impl_task = False\<rparr>"

text \<open>The arguments \<^verbatim>\<open>build\<close> gives to \<^verbatim>\<open>SimpleAgent\<close>.\<close>

record agent =
  agent_name :: string
  agent_instructions :: string
  agent_tools :: "tool list"
  stop_at_tool_names :: "string list"

datatype obj = ToolkitObj | AgentObj agent

text \<open>The fields of a \<^verbatim>\<open>SimpleAgentGenerator\<close>; an object is held by its address.\<close>

record generator =
  mode :: string
  initialized :: bool
  output_dir :: string
  interaction_toolkit :: "nat option"
  agent_1 :: "nat option"
  agent_2 :: "nat option"
  agent_3 :: "nat option"
  agent_4 :: "nat option"

text \<open>
  Everything the pipeline reads and writes: the generator, the store of allocated
  objects, the task state record of the current run, the console, the logged warnings
  and the files written.
\<close>

record world =
  self :: generator
  heap :: "nat \<Rightarrow> obj option"
  next_ref :: nat
  task_recorder :: recorder
  console :: "string list"
  warnings :: "string list"
  files :: "path \<Rightarrow> string option"

text \<open>
  The collaborators the source imports and does not define: the rendered prompt
  templates, the tools of the interaction toolkit, the user's answer, the agent runtime
  (the events a run streams, then its final output or its failure), the tool catalogue
  (each toolkit given by what \<^verbatim>\<open>get_tools_in_agents\<close> returns), \<^verbatim>\<open>json.loads\<close>,
  whether a file can be written, and the printed form of a task state record.
\<close>

record env =
  templates :: "string \<Rightarrow> string option"
  interaction_tools :: "error + tool list"
  ask_user :: "string \<Rightarrow> error + string"
  run_agent :: "agent \<Rightarrow> string \<Rightarrow> event list \<times> (error + string)"
  get_toolkits_map :: "string list \<Rightarrow> (string \<times> (error + tool list)) list"
  json_loads :: "string \<Rightarrow> error + json"
  can_write :: "path \<Rightarrow> bool"
  repr_recorder :: "recorder \<Rightarrow> string"

text \<open>\<^verbatim>\<open>__init__\<close>, with \<^verbatim>\<open>DIR_ROOT\<close> as a parameter.\<close>

definition init_generator :: "string \<Rightarrow> generator" where
  "init_generator dir_root =
     \<lparr>mode = ''local'', initialized = False,
      output_dir = dir_root @ ''/configs/agents/generated'',
      interaction_toolkit = None, agent_1 = None, agent_2 = None, agent_3 = None,
      agent_4 = None\<rparr>"

section \<open>Sequencing and the store\<close>

text \<open>A statement either raises or returns, and leaves a world behind in both cases.\<close>

type_synonym 'a stmt = "world \<Rightarrow> (error + 'a) \<times> world"

definition and_then :: "'a stmt \<Rightarrow> ('a \<Rightarrow> 'b stmt) \<Rightarrow> 'b stmt" where
  "and_then f g w = (case f w of (Inl e, w') \<Rightarrow> (Inl e, w') | (Inr x, w') \<Rightarrow> g x w')"

definition alloc :: "obj \<Rightarrow> world \<Rightarrow> nat \<times> world" where
  "alloc ob w = (next_ref w, w\<lparr>heap := (heap w)(next_ref w \<mapsto> ob), next_ref := Suc (next_ref w)\<rparr>)"

definition get_template :: "env \<Rightarrow> string \<Rightarrow> error + string" where
  "get_template en n = (case templates en n of None \<Rightarrow> Inl (TemplateNotFound n) | Some t \<Rightarrow> Inr t)"

definition get_agent :: "world \<Rightarrow> nat option \<Rightarrow> error + agent" where
  "get_agent w r =
     (case r of
        None \<Rightarrow> Inl AttributeError
      | Some p \<Rightarrow> (case heap w p of Some (AgentObj a) \<Rightarrow> Inr a | _ \<Rightarrow> Inl AttributeError))"

section \<open>build\<close>

definition build :: "env \<Rightarrow> unit stmt" where
  "build en w =
     (if initialized (self w) then (Inr (), w)
      else
        (case alloc ToolkitObj w of (tk, w0) \<Rightarrow>
         let w1 = w0\<lparr>self := (self w0)\<lparr>interaction_toolkit := Some tk\<rparr>\<rparr> in
         (case get_template en ''requirements_clarification.j2'' of
            Inl e \<Rightarrow> (Inl e, w1)
          | Inr i1 \<Rightarrow>
         (case interaction_tools en of
            Inl e \<Rightarrow> (Inl e, w1)
          | Inr ts \<Rightarrow>
         (case alloc (AgentObj \<lparr>agent_name = ''clarification_agent'', agent_instructions = i1,
                        agent_tools = ts, stop_at_tool_names = [''final_answer'']\<rparr>) w1 of
            (a1, w1') \<Rightarrow>
         let w2 = w1'\<lparr>self := (self w1')\<lparr>agent_1 := Some a1\<rparr>\<rparr> in
         (case get_template en ''tools_selection.j2'' of
            Inl e \<Rightarrow> (Inl e, w2)
          | Inr i2 \<Rightarrow>
         (case alloc (AgentObj \<lparr>agent_name = ''tool_selection_agent'', agent_instructions = i2,
                        agent_tools = [], stop_at_tool_names = []\<rparr>) w2 of
            (a2, w2') \<Rightarrow>
         let w3 = w2'\<lparr>self := (self w2')\<lparr>agent_2 := Some a2\<rparr>\<rparr> in
         (case get_template en ''instructions_generation.j2'' of
            Inl e \<Rightarrow> (Inl e, w3)
          | Inr i3 \<Rightarrow>
         (case alloc (AgentObj \<lparr>agent_name = ''instructions_generation_agent'',
                        agent_instructions = i3, agent_tools = [], stop_at_tool_names = []\<rparr>) w3 of
            (a3, w3') \<Rightarrow>
         let w4 = w3'\<lparr>self := (self w3')\<lparr>agent_3 := Some a3\<rparr>\<rparr> in
         (case get_template en ''name_generation.j2'' of
            Inl e \<Rightarrow> (Inl e, w4)
          | Inr i4 \<Rightarrow>
         (case alloc (AgentObj \<lparr>agent_name = ''name_generation_agent'', agent_instructions = i4,
                        agent_tools = [], stop_at_tool_names = []\<rparr>) w4 of
            (a4, w4') \<Rightarrow>
         (Inr (), w4'\<lparr>self := (self w4')\<lparr>agent_4 := Some a4, initialized := True\<rparr>\<rparr>))))))))))))"

section \<open>The four steps\<close>

text \<open>\<^verbatim>\<open>_process_streamed\<close>: the events go to the console, or to the record's queue.\<close>

definition process_streamed :: "event list \<Rightarrow> world \<Rightarrow> world" where
  "process_streamed evs w =
     (if mode (self w) = ''local'' then w\<lparr>console := console w @ evs\<rparr>
      else w\<lparr>task_recorder := (task_recorder w)\<lparr>event_queue := event_queue (task_recorder w) @ evs\<rparr>\<rparr>)"

text \<open>
  \<^verbatim>\<open>async with self.agent_k as agent\<close>: the field is read and the agent entered.
\<close>

definition enter_agent :: "(generator \<Rightarrow> nat option) \<Rightarrow> agent stmt" where
  "enter_agent fld w = (get_agent w (fld (self w)), w)"

text \<open>
  \<^verbatim>\<open>result = agent.run_streamed(input)\<close>, the relay of its events, and the read of
  \<^verbatim>\<open>result.final_output\<close>. A run that fails does so once its events have been relayed.
\<close>

definition run_streamed_agent :: "env \<Rightarrow> agent \<Rightarrow> string \<Rightarrow> string stmt" where
  "run_streamed_agent en a input w =
     (case run_agent en a input of (evs, res) \<Rightarrow> (res, process_streamed evs w))"

text \<open>Reading a field of the record that no step has set is an AttributeError.\<close>

definition read_field :: "(recorder \<Rightarrow> 'a option) \<Rightarrow> 'a stmt" where
  "read_field fld w =
     (case fld (task_recorder w) of None \<Rightarrow> (Inl AttributeError, w) | Some v \<Rightarrow> (Inr v, w))"

definition raise_or_return :: "error + 'a \<Rightarrow> 'a stmt" where
  "raise_or_return r w = (r, w)"

definition step1 :: "env \<Rightarrow> unit stmt" where
  "step1 en =
     and_then (raise_or_return (ask_user en ''Please enter your requirements:'')) (\<lambda>user_input.
     and_then (enter_agent agent_1) (\<lambda>agent.
     and_then (run_streamed_agent en agent user_input) (\<lambda>out w.
       (Inr (), w\<lparr>task_recorder := (task_recorder w)\<lparr>requirements := Some out\<rparr>\<rparr>))))"

definition available_toolkits :: "string list" where
  "available_toolkits = [''search'', ''document'', ''image'', ''audio'', ''bash'', ''tabular'']"

definition TOOL_SELECTION_TEMPLATE :: string where
  "TOOL_SELECTION_TEMPLATE =
     ''<available_tools>\<newline>{available_tools}\<newline></available_tools>\<newline><requirement>\<newline>{requirement}\<newline></requirement>''"

text \<open>
  The first loop of \<^verbatim>\<open>step2\<close>, over \<^verbatim>\<open>toolkits_map.items()\<close>: the description lines and
  the reverse index \<^verbatim>\<open>tool_to_toolkit_name\<close>, in which a later toolkit overwrites the
  entry of an earlier one for a tool name they share.
\<close>

fun collect_tools ::
  "(string \<times> (error + tool list)) list \<Rightarrow> string list \<times> (string \<Rightarrow> string option) \<Rightarrow>
   error + (string list \<times> (string \<Rightarrow> string option))" where
  "collect_tools [] acc = Inr acc"
| "collect_tools ((toolkit_name, toolkit) # rest) (tools_descs, tool_to_toolkit_name) =
     (case toolkit of
        Inl e \<Rightarrow> Inl e
      | Inr tools \<Rightarrow>
          collect_tools rest
            (tools_descs @ map (\<lambda>t. ''- '' @ tool_name t @ '': '' @ tool_description t) tools,
             fold (\<lambda>t m. m(tool_name t \<mapsto> toolkit_name)) tools tool_to_toolkit_name))"

text \<open>
  \<^verbatim>\<open>selected_tools[g].append(t)\<close> on a \<^verbatim>\<open>defaultdict(list)\<close>: a group seen for the first
  time is added last, with the list \<^verbatim>\<open>[t]\<close>.
\<close>

fun append_to :: "(string \<times> string list) list \<Rightarrow> string \<Rightarrow> string \<Rightarrow> (string \<times> string list) list" where
  "append_to [] g t = [(g, [t])]"
| "append_to ((k, v) # rest) g t =
     (if k = g then (k, v @ [t]) # rest else (k, v) # append_to rest g t)"

text \<open>
  The second loop of \<^verbatim>\<open>step2\<close>. The index has strings for keys: a string that is not a
  key, and every other hashable value, is a KeyError; a list or a dict is not hashable.
\<close>

fun group_tools ::
  "(string \<Rightarrow> string option) \<Rightarrow> json list \<Rightarrow> (string \<times> string list) list \<Rightarrow>
   error + (string \<times> string list) list" where
  "group_tools idx [] sel = Inr sel"
| "group_tools idx (JStr t # rest) sel =
     (case idx t of
        None \<Rightarrow> Inl (KeyError (JStr t))
      | Some g \<Rightarrow> group_tools idx rest (append_to sel g t))"
| "group_tools idx (JList xs # rest) sel = Inl TypeError"
| "group_tools idx (JDict kvs # rest) sel = Inl TypeError"
| "group_tools idx (v # rest) sel = Inl (KeyError v)"

text \<open>
  \<^verbatim>\<open>step2\<close> up to the parse of the agent's output (lines 138 to 155 of the source): it
  returns the reverse index and the parsed value.
\<close>

definition step2_select :: "env \<Rightarrow> ((string \<Rightarrow> string option) \<times> json) stmt" where
  "step2_select en =
     and_then (raise_or_return
       (collect_tools (get_toolkits_map en available_toolkits) ([], Map.empty)))
       (\<lambda>(tools_descs, tool_to_toolkit_name).
     and_then (read_field requirements) (\<lambda>req.
     and_then (raise_or_return
       (py_format [(''available_tools'', join [nl] tools_descs), (''requirement'', req)]
          TOOL_SELECTION_TEMPLATE)) (\<lambda>query.
     and_then (enter_agent agent_2) (\<lambda>agent.
     and_then (run_streamed_agent en agent query) (\<lambda>selected_tools.
     and_then (raise_or_return (json_loads en selected_tools)) (\<lambda>selected_tool_names w.
       (Inr (tool_to_toolkit_name, selected_tool_names), w)))))))"

text \<open>
  The rest of \<^verbatim>\<open>step2\<close> (lines 156 to 159): the names are filed under their groups, and
  the record is assigned once the loop has ended.
\<close>

definition step2_group :: "(string \<Rightarrow> string option) \<Rightarrow> json \<Rightarrow> unit stmt" where
  "step2_group tool_to_toolkit_name selected_tool_names =
     and_then (raise_or_return (py_iter selected_tool_names)) (\<lambda>names.
     and_then (raise_or_return (group_tools tool_to_toolkit_name names [])) (\<lambda>sel w.
       (Inr (), w\<lparr>task_recorder := (task_recorder w)\<lparr>selected_tools := Some sel\<rparr>\<rparr>)))"

definition step2 :: "env \<Rightarrow> unit stmt" where
  "step2 en =
     and_then (step2_select en) (\<lambda>(tool_to_toolkit_name, selected_tool_names).
       step2_group tool_to_toolkit_name selected_tool_names)"

definition step3 :: "env \<Rightarrow> unit stmt" where
  "step3 en =
     and_then (enter_agent agent_3) (\<lambda>agent.
     and_then (read_field requirements) (\<lambda>req.
     and_then (run_streamed_agent en agent req) (\<lambda>out w.
       (Inr (), w\<lparr>task_recorder := (task_recorder w)\<lparr>instructions := Some out\<rparr>\<rparr>))))"

text \<open>\<^verbatim>\<open>s.replace(" ", "_")\<close>.\<close>

definition replace_spaces :: "string \<Rightarrow> string" where
  "replace_spaces s = map (\<lambda>c. if c = CHR '' '' then CHR ''_'' else c) s"

definition step4 :: "env \<Rightarrow> unit stmt" where
  "step4 en =
     and_then (enter_agent agent_4) (\<lambda>agent.
     and_then (read_field requirements) (\<lambda>req.
     and_then (run_streamed_agent en agent req) (\<lambda>nm w.
       if 50 < length nm \<or> CHR '' '' \<in> set nm then
         (Inr (), w\<lparr>warnings := warnings w @
                     [''Generated name is too long or contains spaces: '' @ nm],
                   task_recorder := (task_recorder w)\<lparr>name := Some (replace_spaces (take 50 nm))\<rparr>\<rparr>)
       else (Inr (), w\<lparr>task_recorder := (task_recorder w)\<lparr>name := Some nm\<rparr>\<rparr>))))"

section \<open>format_config\<close>

definition CONFIG_TEMPLATE :: string where
  "CONFIG_TEMPLATE =
     ''\<newline># @package _global_\<newline>defaults:\<newline>  - /model/base@model\<newline>{toolkits_includes}\<newline>  - _self_\<newline>\<newline>toolkits:\<newline>{toolkits_configs}\<newline>\<newline>agent:\<newline>  name: {agent_name}\<newline>  instructions: |\<newline>{instructions}\<newline>''"

text \<open>\<^verbatim>\<open>add_indented_lines\<close> takes a string, which it splits at the newlines, or a list.\<close>

datatype lines_arg = Text string | Lines "string list"

fun add_indented_lines :: "lines_arg \<Rightarrow> nat \<Rightarrow> string" where
  "add_indented_lines (Text s) indent =
     join [nl] (map (\<lambda>line. replicate indent (CHR '' '') @ line) (split_nl s))"
| "add_indented_lines (Lines ls) indent =
     join [nl] (map (\<lambda>line. replicate indent (CHR '' '') @ line) ls)"

definition include_line :: "string \<Rightarrow> string" where
  "include_line toolkit_name = ''- /tools/'' @ toolkit_name @ ''@toolkits.'' @ toolkit_name"

definition config_line :: "string \<times> string list \<Rightarrow> string" where
  "config_line kv = fst kv @ '': '' @ dumps_activated (snd kv)"

text \<open>The text \<^verbatim>\<open>format_config\<close> renders, for the values of the three fields it reads.\<close>

definition render_config ::
  "(string \<times> string list) list \<Rightarrow> string \<Rightarrow> string \<Rightarrow> error + string" where
  "render_config sel nm ins =
     py_format
       [(''agent_name'', nm),
        (''instructions'', add_indented_lines (Text ins) 4),
        (''toolkits_includes'', add_indented_lines (Lines (map include_line (map fst sel))) 2),
        (''toolkits_configs'', add_indented_lines (Lines (map config_line sel)) 2)]
       CONFIG_TEMPLATE"

definition write_text :: "env \<Rightarrow> path \<Rightarrow> string \<Rightarrow> unit stmt" where
  "write_text en ofn txt w =
     (if can_write en ofn then (Inr (), w\<lparr>files := (files w)(ofn \<mapsto> txt)\<rparr>) else (Inl OSError, w))"

definition format_config :: "env \<Rightarrow> path stmt" where
  "format_config en =
     and_then (read_field selected_tools) (\<lambda>sel.
     and_then (read_field name) (\<lambda>nm.
     and_then (read_field instructions) (\<lambda>ins.
     and_then (raise_or_return (render_config sel nm ins)) (\<lambda>config.
     and_then (\<lambda>w. write_text en (output_dir (self w), nm @ ''.yaml'') config w) (\<lambda>u w.
       (Inr (output_dir (self w), nm @ ''.yaml''), w))))))"

section \<open>The two drivers\<close>

definition print_line :: "string \<Rightarrow> unit stmt" where
  "print_line s w = (Inr (), w\<lparr>console := console w @ [s]\<rparr>)"

definition run :: "env \<Rightarrow> unit stmt" where
  "run en =
     and_then (build en) (\<lambda>u.
     and_then (\<lambda>w. (Inr (), w\<lparr>task_recorder := new_recorder\<rparr>)) (\<lambda>u.
     and_then (step1 en) (\<lambda>u.
     and_then (step2 en) (\<lambda>u.
     and_then (step3 en) (\<lambda>u.
     and_then (step4 en) (\<lambda>u.
     and_then (format_config en) (\<lambda>ofn.
       print_line (''Config saved to '' @ path_str ofn))))))))"

text \<open>
  \<^verbatim>\<open>run_streamed\<close> makes a new record, schedules \<^verbatim>\<open>_start_streaming\<close> on it and returns
  the record at once: nothing of the task has run yet.
\<close>

definition run_streamed :: "world \<Rightarrow> recorder \<times> world" where
  "run_streamed w =
     (new_recorder\<lparr>run_impl_task := True\<rparr>,
      w\<lparr>task_recorder := new_recorder\<lparr>run_impl_task := True\<rparr>\<rparr>)"

definition start_streaming :: "env \<Rightarrow> path stmt" where
  "start_streaming en =
     and_then (build en) (\<lambda>u.
     and_then (step1 en) (\<lambda>u.
     and_then (step2 en) (\<lambda>u.
     and_then (step3 en) (\<lambda>u.
     and_then (step4 en) (\<lambda>u.
     and_then (format_config en) (\<lambda>ofn.
     and_then (\<lambda>w. (Inr (), w\<lparr>task_recorder := (task_recorder w)\<lparr>is_complete := True\<rparr>\<rparr>)) (\<lambda>u.
     and_then (print_line (''Config saved to '' @ path_str ofn)) (\<lambda>u.
     and_then (\<lambda>w. print_line (''task_recorder: '' @ repr_recorder en (task_recorder w)) w) (\<lambda>u w.
       (Inr ofn, w))))))))))"

section \<open>A concrete run\<close>

text \<open>
  The round trip of the spec: the requirements ask for web search and PDF summaries, the
  catalogue has \<^verbatim>\<open>web_search\<close> in group \<^verbatim>\<open>search\<close> and \<^verbatim>\<open>pdf_reader\<close> in group
  \<^verbatim>\<open>document\<close>, and the tool-selection agent answers with the JSON list of both.
\<close>

definition demo_requirements :: string where
  "demo_requirements = ''I need an agent that can search the web and summarize PDFs''"

definition demo_catalogue :: "(string \<times> (error + tool list)) list" where
  "demo_catalogue =
     [(''search'', Inr [\<lparr>tool_name = ''web_search'', tool_description = ''search the web''\<rparr>]),
      (''document'', Inr [\<lparr>tool_name = ''pdf_reader'', tool_description = ''read a PDF''\<rparr>])]"

definition demo_selection :: string where
  "demo_selection = ''['' @ [dq] @ ''web_search'' @ [dq] @ '', '' @ [dq] @ ''pdf_reader'' @ [dq] @ '']''"

text \<open>Each agent answers by its name; the second one answers \<open>answer2\<close>.\<close>

definition demo_agent :: "string \<Rightarrow> agent \<Rightarrow> string \<Rightarrow> event list \<times> (error + string)" where
  "demo_agent answer2 a input =
     (if agent_name a = ''clarification_agent'' then ([''asked''], Inr demo_requirements)
      else if agent_name a = ''tool_selection_agent'' then ([''selected''], Inr answer2)
      else if agent_name a = ''instructions_generation_agent'' then
        ([''drafted''], Inr ''Search the web.\<newline>Summarize PDFs.'')
      else ([''named''], Inr ''web pdf agent''))"

definition demo_twice :: string where
  "demo_twice = ''['' @ [dq] @ ''web_search'' @ [dq] @ '', '' @ [dq] @ ''web_search'' @ [dq] @ '']''"

definition demo_unknown :: string where
  "demo_unknown = ''['' @ [dq] @ ''web_search'' @ [dq] @ '', '' @ [dq] @ ''teleport'' @ [dq] @ '']''"

text \<open>
  \<^verbatim>\<open>json.loads\<close> on the texts used below: the list of both names, the list with one
  name twice, the list with a name the catalogue does not have, and the empty object
  \<^verbatim>\<open>{}\<close>; any other text is taken as no JSON.
\<close>

definition demo_loads :: "string \<Rightarrow> error + json" where
  "demo_loads s =
     (if s = demo_selection then Inr (JList [JStr ''web_search'', JStr ''pdf_reader''])
      else if s = demo_twice then Inr (JList [JStr ''web_search'', JStr ''web_search''])
      else if s = demo_unknown then Inr (JList [JStr ''web_search'', JStr ''teleport''])
      else if s = ''{}'' then Inr (JDict [])
      else Inl JSONDecodeError)"

definition demo_env :: "string \<Rightarrow> env" where
  "demo_env answer2 =
     \<lparr>templates = (\<lambda>n. Some (''prompt of '' @ n)),
      interaction_tools = Inr [\<lparr>tool_name = ''ask_user'', tool_description = ''ask the user''\<rparr>,
                               \<lparr>tool_name = ''final_answer'', tool_description = ''answer''\<rparr>],
      ask_user = (\<lambda>q. Inr ''an agent for the web and PDFs''),
      run_agent = demo_agent answer2,
      get_toolkits_map = (\<lambda>names. demo_catalogue),
      json_loads = demo_loads,
      can_write = (\<lambda>p. True),
      repr_recorder = (\<lambda>r. ''GeneratorTaskRecorder'')\<rparr>"

definition demo_world :: world where
  "demo_world =
     \<lparr>self = init_generator ''/utu'', heap = Map.empty, next_ref = 0,
      task_recorder = new_recorder, console = [], warnings = [], files = Map.empty\<rparr>"

text \<open>A world in which \<^verbatim>\<open>build\<close> and \<^verbatim>\<open>step1\<close> are done, as far as \<^verbatim>\<open>step2\<close> reads it.\<close>

definition ready_world :: world where
  "ready_world =
     \<lparr>self = (init_generator ''/utu'')\<lparr>initialized := True, agent_2 := Some 0\<rparr>,
      heap = [0 \<mapsto> AgentObj \<lparr>agent_name = ''tool_selection_agent'', agent_instructions = ''select'',
                                agent_tools = [], stop_at_tool_names = []\<rparr>],
      next_ref = 1,
      task_recorder = new_recorder\<lparr>requirements := Some demo_requirements\<rparr>,
      console = [], warnings = [], files = Map.empty\<rparr>"

definition demo_index :: "string \<Rightarrow> string option" where
  "demo_index = [''web_search'' \<mapsto> ''search'', ''pdf_reader'' \<mapsto> ''document'']"

text \<open>A statement that leaves an observation of the world as it was, whether it raises or not.\<close>

definition preserves :: "(world \<Rightarrow> 'b) \<Rightarrow> 'a stmt \<Rightarrow> bool" where
  "preserves obs f = (\<forall>w. obs (snd (f w)) = obs w)"

text \<open>The example of name sanitization in the spec, and a world in which step 4 can run.\<close>

definition long_name :: string where
  "long_name = ''a very long name with spaces that exceeds fifty characters total''"

definition naming_env :: "string \<Rightarrow> env" where
  "naming_env nm = (demo_env demo_selection)\<lparr>run_agent := (\<lambda>a input. ([''named''], Inr nm))\<rparr>"

definition named_world :: world where
  "named_world =
     \<lparr>self = (init_generator ''/utu'')\<lparr>initialized := True, agent_4 := Some 0\<rparr>,
      heap = [0 \<mapsto> AgentObj \<lparr>agent_name = ''name_generation_agent'', agent_instructions = ''name'',
                                agent_tools = [], stop_at_tool_names = []\<rparr>],
      next_ref = 1,
      task_recorder = new_recorder\<lparr>requirements := Some demo_requirements\<rparr>,
      console = [], warnings = [], files = Map.empty\<rparr>"

section \<open>Sequencing\<close>

lemma and_then_Inr:
  "and_then f g w = (Inr y, w') \<longleftrightarrow> (\<exists>x w1. f w = (Inr x, w1) \<and> g x w1 = (Inr y, w'))"
  by (auto simp: and_then_def split: prod.splits sum.splits)

lemma and_then_Inl:
  "and_then f g w = (Inl e, w') \<longleftrightarrow>
     (f w = (Inl e, w') \<or> (\<exists>x w1. f w = (Inr x, w1) \<and> g x w1 = (Inl e, w')))"
  by (auto simp: and_then_def split: prod.splits sum.splits)

lemma raise_or_return_eq: "raise_or_return r w = (r', w') \<longleftrightarrow> r = r' \<and> w = w'"
  by (auto simp: raise_or_return_def)

section \<open>Step 2: filing the selected tools\<close>

lemma map_of_append_to:
  "map_of (append_to sel g t) g' =
     (if g' = g then Some ((case map_of sel g of None \<Rightarrow> [] | Some ts \<Rightarrow> ts) @ [t])
      else map_of sel g')"
  by (induction sel g t rule: append_to.induct) auto

lemma keys_append_to:
  "map fst (append_to sel g t) = (if g \<in> set (map fst sel) then map fst sel else map fst sel @ [g])"
  by (induction sel g t rule: append_to.induct) auto

lemma filed_append_to:
  "list_all (\<lambda>kv. list_all (\<lambda>x. idx x = Some (fst kv)) (snd kv)) sel \<Longrightarrow> idx t = Some g \<Longrightarrow>
   list_all (\<lambda>kv. list_all (\<lambda>x. idx x = Some (fst kv)) (snd kv)) (append_to sel g t)"
  by (induction sel g t rule: append_to.induct) auto

lemma group_tools_filed:
  "group_tools idx names sel = Inr sel' \<Longrightarrow>
   list_all (\<lambda>kv. list_all (\<lambda>x. idx x = Some (fst kv)) (snd kv)) sel \<Longrightarrow>
   list_all (\<lambda>kv. list_all (\<lambda>x. idx x = Some (fst kv)) (snd kv)) sel'"
proof (induction idx names sel rule: group_tools.induct)
  case (2 idx t rest sel)
  from "2.prems"(1) obtain g where g: "idx t = Some g"
    and rest: "group_tools idx rest (append_to sel g t) = Inr sel'"
    by (cases "idx t") simp_all
  show ?case
    by (rule "2.IH" [OF g rest]) (rule filed_append_to [OF "2.prems"(2) g])
qed simp_all

lemma group_tools_filed_all:
  assumes "group_tools idx names [] = Inr sel" and "(g, ts) \<in> set sel" and "t \<in> set ts"
  shows "idx t = Some g"
proof -
  have "list_all (\<lambda>kv. list_all (\<lambda>x. idx x = Some (fst kv)) (snd kv)) sel"
    by (rule group_tools_filed [OF assms(1)]) simp
  with assms(2,3) show ?thesis by (fastforce simp: list_all_iff)
qed

lemma group_tools_distinct:
  "group_tools idx names sel = Inr sel' \<Longrightarrow> distinct (map fst sel) \<Longrightarrow> distinct (map fst sel')"
  by (induction idx names sel rule: group_tools.induct)
     (auto split: option.splits simp: keys_append_to)

lemma group_tools_strings:
  "group_tools idx names sel = Inr sel' \<Longrightarrow>
   \<exists>ts. names = map JStr ts \<and> (\<forall>t \<in> set ts. idx t \<noteq> None)"
proof (induction idx names sel rule: group_tools.induct)
  case (2 idx t rest sel)
  then obtain g where g: "idx t = Some g" by (auto split: option.splits)
  with 2 obtain ts where "rest = map JStr ts" "\<forall>t \<in> set ts. idx t \<noteq> None" by auto
  then have "JStr t # rest = map JStr (t # ts) \<and> (\<forall>x \<in> set (t # ts). idx x \<noteq> None)"
    using g by simp
  then show ?case by (intro exI [of _ "t # ts"])
qed auto

lemma group_tools_map_of:
  "group_tools idx (map JStr ts) sel = Inr sel' \<Longrightarrow>
   map_of sel' g =
     (if [t \<leftarrow> ts. idx t = Some g] = [] then map_of sel g
      else Some ((case map_of sel g of None \<Rightarrow> [] | Some old \<Rightarrow> old) @ [t \<leftarrow> ts. idx t = Some g]))"
proof (induction ts arbitrary: sel)
  case Nil
  then show ?case by simp
next
  case (Cons t ts)
  then obtain h where h: "idx t = Some h"
    and rest: "group_tools idx (map JStr ts) (append_to sel h t) = Inr sel'"
    by (auto split: option.splits)
  show ?case
    using Cons.IH [OF rest] h by (auto simp: map_of_append_to split: option.splits)
qed

lemma group_tools_unknown:
  "\<exists>t \<in> set ts. idx t = None \<Longrightarrow>
   group_tools idx (map JStr ts) sel = Inl (KeyError (JStr (hd [t \<leftarrow> ts. idx t = None])))"
  by (induction ts arbitrary: sel) (auto split: option.splits)

lemma step2_Inr:
  "step2 en w = (Inr u, w') \<longleftrightarrow>
     (\<exists>idx v w1 names sel. step2_select en w = (Inr (idx, v), w1) \<and> py_iter v = Inr names \<and>
        group_tools idx names [] = Inr sel \<and>
        w' = w1\<lparr>task_recorder := (task_recorder w1)\<lparr>selected_tools := Some sel\<rparr>\<rparr>)"
  by (auto simp: step2_def step2_group_def and_then_Inr raise_or_return_eq)

lemma step2_select_index:
  "step2_select en w = (Inr (idx, v), w1) \<Longrightarrow>
   \<exists>descs. collect_tools (get_toolkits_map en available_toolkits) ([], Map.empty) = Inr (descs, idx)"
  by (auto simp: step2_select_def and_then_Inr raise_or_return_eq)

lemma step2_Inl_group:
  "step2_select en w = (Inr (idx, v), w1) \<Longrightarrow> py_iter v = Inr names \<Longrightarrow>
   group_tools idx names [] = Inl e \<Longrightarrow> step2 en w = (Inl e, w1)"
  by (simp add: step2_def step2_group_def and_then_def raise_or_return_def)

lemma step2_Inr_group:
  "step2_select en w = (Inr (idx, v), w1) \<Longrightarrow> py_iter v = Inr names \<Longrightarrow>
   group_tools idx names [] = Inr sel \<Longrightarrow>
   step2 en w = (Inr (), w1\<lparr>task_recorder := (task_recorder w1)\<lparr>selected_tools := Some sel\<rparr>\<rparr>)"
  by (simp add: step2_def step2_group_def and_then_def raise_or_return_def)

lemma step2_success_parts:
  assumes "step2_select en w = (Inr (idx, v), w1)" and "step2 en w = (Inr (), w')"
  shows "\<exists>names sel. py_iter v = Inr (map JStr names) \<and> group_tools idx (map JStr names) [] = Inr sel \<and>
           w' = w1\<lparr>task_recorder := (task_recorder w1)\<lparr>selected_tools := Some sel\<rparr>\<rparr>"
proof -
  from assms obtain js sel where it: "py_iter v = Inr js" and g: "group_tools idx js [] = Inr sel"
    and w': "w' = w1\<lparr>task_recorder := (task_recorder w1)\<lparr>selected_tools := Some sel\<rparr>\<rparr>"
    by (auto simp: step2_Inr)
  from group_tools_strings [OF g] obtain names where "js = map JStr names" by blast
  with it g w' show ?thesis by blast
qed

lemma demo_select:
  "demo_loads a = Inr v \<Longrightarrow>
   step2_select (demo_env a) ready_world = (Inr (demo_index, v), ready_world\<lparr>console := [''selected'']\<rparr>)"
  by (simp add: step2_select_def and_then_def raise_or_return_def demo_env_def demo_catalogue_def
      read_field_def ready_world_def new_recorder_def TOOL_SELECTION_TEMPLATE_def enter_agent_def
      get_agent_def init_generator_def run_streamed_agent_def demo_agent_def process_streamed_def
      demo_index_def)

lemma demo_loads_selection:
  "demo_loads demo_selection = Inr (JList [JStr ''web_search'', JStr ''pdf_reader''])"
  by (simp add: demo_loads_def)

lemma demo_loads_twice:
  "demo_loads demo_twice = Inr (JList [JStr ''web_search'', JStr ''web_search''])"
  by (simp add: demo_loads_def demo_twice_def demo_selection_def)

lemma demo_loads_unknown:
  "demo_loads demo_unknown = Inr (JList [JStr ''web_search'', JStr ''teleport''])"
  by (simp add: demo_loads_def demo_twice_def demo_selection_def demo_unknown_def)

lemma demo_step2:
  "step2 (demo_env demo_selection) ready_world =
     (Inr (),
      ready_world\<lparr>console := [''selected''],
        task_recorder := (task_recorder ready_world)\<lparr>selected_tools :=
          Some [(''search'', [''web_search'']), (''document'', [''pdf_reader''])]\<rparr>\<rparr>)"
  by (simp add: step2_def and_then_def demo_select [OF demo_loads_selection] step2_group_def
      raise_or_return_def demo_index_def)

lemma demo_step2_twice:
  "step2 (demo_env demo_twice) ready_world =
     (Inr (),
      ready_world\<lparr>console := [''selected''],
        task_recorder := (task_recorder ready_world)\<lparr>selected_tools :=
          Some [(''search'', [''web_search'', ''web_search''])]\<rparr>\<rparr>)"
  by (simp add: step2_def and_then_def demo_select [OF demo_loads_twice] step2_group_def
      raise_or_return_def demo_index_def)

text \<open>
  C1. After a successful step 2, every tool name in \<^verbatim>\<open>selected_tools\<close> is filed under the
  group that the reverse index, built by step 2 from the available toolkits, gives for it.
\<close>

theorem step2_files_under_owner:
  assumes "step2_select en w = (Inr (idx, v), w1)" and "step2 en w = (Inr (), w')"
  shows "(\<exists>descs. collect_tools (get_toolkits_map en available_toolkits) ([], Map.empty)
                  = Inr (descs, idx)) \<and>
         (\<exists>sel. selected_tools (task_recorder w') = Some sel \<and>
            (\<forall>g ts. (g, ts) \<in> set sel \<longrightarrow> (\<forall>t \<in> set ts. idx t = Some g)))"
proof -
  from assms obtain names sel where g: "group_tools idx names [] = Inr sel"
    and w': "w' = w1\<lparr>task_recorder := (task_recorder w1)\<lparr>selected_tools := Some sel\<rparr>\<rparr>"
    by (auto simp: step2_Inr)
  have sel: "selected_tools (task_recorder w') = Some sel"
    by (simp add: w')
  have "\<forall>g ts. (g, ts) \<in> set sel \<longrightarrow> (\<forall>t \<in> set ts. idx t = Some g)"
    using group_tools_filed_all [OF g] by blast
  with sel have "\<exists>sel. selected_tools (task_recorder w') = Some sel \<and>
      (\<forall>g ts. (g, ts) \<in> set sel \<longrightarrow> (\<forall>t \<in> set ts. idx t = Some g))"
    by blast
  with step2_select_index [OF assms(1)] show ?thesis by (rule conjI)
qed

theorem step2_files_under_owner_witness:
  "step2_select (demo_env demo_selection) ready_world =
     (Inr (demo_index, JList [JStr ''web_search'', JStr ''pdf_reader'']),
      ready_world\<lparr>console := [''selected'']\<rparr>) \<and>
   step2 (demo_env demo_selection) ready_world =
     (Inr (),
      ready_world\<lparr>console := [''selected''],
        task_recorder := (task_recorder ready_world)\<lparr>selected_tools :=
          Some [(''search'', [''web_search'']), (''document'', [''pdf_reader''])]\<rparr>\<rparr>) \<and>
   ((\<exists>descs. collect_tools (get_toolkits_map (demo_env demo_selection) available_toolkits)
        ([], Map.empty) = Inr (descs, demo_index)) \<and>
    (\<exists>sel. selected_tools (task_recorder
        (ready_world\<lparr>console := [''selected''],
           task_recorder := (task_recorder ready_world)\<lparr>selected_tools :=
             Some [(''search'', [''web_search'']), (''document'', [''pdf_reader''])]\<rparr>\<rparr>)) = Some sel \<and>
      (\<forall>g ts. (g, ts) \<in> set sel \<longrightarrow> (\<forall>t \<in> set ts. demo_index t = Some g))))"
  by (intro conjI [OF demo_select [OF demo_loads_selection]] conjI [OF demo_step2]
      step2_files_under_owner [OF demo_select [OF demo_loads_selection] demo_step2])

text \<open>
  C5. Step 2 keeps the order of discovery inside every group: the list filed under a
  group is the list of the selected names the index gives to that group, in the order of
  the agent's parsed output; a group with no selected name is no key of the mapping.
\<close>

theorem step2_groups_in_order:
  assumes "step2_select en w = (Inr (idx, v), w1)" and "step2 en w = (Inr (), w')"
  shows "\<exists>names sel. py_iter v = Inr (map JStr names) \<and>
           selected_tools (task_recorder w') = Some sel \<and> distinct (map fst sel) \<and>
           (\<forall>g. map_of sel g =
              (if [t \<leftarrow> names. idx t = Some g] = [] then None
               else Some [t \<leftarrow> names. idx t = Some g]))"
proof -
  from step2_success_parts [OF assms] obtain names sel
    where it: "py_iter v = Inr (map JStr names)"
      and g: "group_tools idx (map JStr names) [] = Inr sel"
      and w': "w' = w1\<lparr>task_recorder := (task_recorder w1)\<lparr>selected_tools := Some sel\<rparr>\<rparr>"
    by blast
  have sel: "selected_tools (task_recorder w') = Some sel" by (simp add: w')
  have d: "distinct (map fst sel)" using group_tools_distinct [OF g] by simp
  have m: "\<forall>g. map_of sel g =
      (if [t \<leftarrow> names. idx t = Some g] = [] then None else Some [t \<leftarrow> names. idx t = Some g])"
    using group_tools_map_of [OF g] by simp
  from it sel d m show ?thesis by blast
qed

theorem step2_groups_in_order_witness:
  "step2_select (demo_env demo_selection) ready_world =
     (Inr (demo_index, JList [JStr ''web_search'', JStr ''pdf_reader'']),
      ready_world\<lparr>console := [''selected'']\<rparr>) \<and>
   step2 (demo_env demo_selection) ready_world =
     (Inr (),
      ready_world\<lparr>console := [''selected''],
        task_recorder := (task_recorder ready_world)\<lparr>selected_tools :=
          Some [(''search'', [''web_search'']), (''document'', [''pdf_reader''])]\<rparr>\<rparr>) \<and>
   (\<exists>names sel. py_iter (JList [JStr ''web_search'', JStr ''pdf_reader'']) = Inr (map JStr names) \<and>
      selected_tools (task_recorder
        (ready_world\<lparr>console := [''selected''],
           task_recorder := (task_recorder ready_world)\<lparr>selected_tools :=
             Some [(''search'', [''web_search'']), (''document'', [''pdf_reader''])]\<rparr>\<rparr>)) = Some sel \<and>
      distinct (map fst sel) \<and>
      (\<forall>g. map_of sel g =
         (if [t \<leftarrow> names. demo_index t = Some g] = [] then None
          else Some [t \<leftarrow> names. demo_index t = Some g])))"
  by (intro conjI [OF demo_select [OF demo_loads_selection]] conjI [OF demo_step2]
      step2_groups_in_order [OF demo_select [OF demo_loads_selection] demo_step2])

text \<open>
  C10. Step 2 does not deduplicate: a known tool name that occurs k times in the parsed
  output occurs k times in the list of its owning group, and in no other group's list.
\<close>

theorem step2_keeps_multiplicity:
  assumes "step2_select en w = (Inr (idx, v), w1)" and "step2 en w = (Inr (), w')"
    and "py_iter v = Inr names" and "JStr t \<in> set names" and "idx t = Some g"
  shows "\<exists>sel ts. selected_tools (task_recorder w') = Some sel \<and> map_of sel g = Some ts \<and>
           count_list ts t = count_list names (JStr t) \<and>
           (\<forall>h us. (h, us) \<in> set sel \<and> h \<noteq> g \<longrightarrow> t \<notin> set us)"
proof -
  from step2_success_parts [OF assms(1,2)] obtain ns sel
    where it: "py_iter v = Inr (map JStr ns)"
      and g: "group_tools idx (map JStr ns) [] = Inr sel"
      and w': "w' = w1\<lparr>task_recorder := (task_recorder w1)\<lparr>selected_tools := Some sel\<rparr>\<rparr>"
    by blast
  from it assms(3) have names: "names = map JStr ns" by simp
  with assms(4) have t: "t \<in> set ns" by auto
  have sel: "selected_tools (task_recorder w') = Some sel" by (simp add: w')
  let ?ts = "[x \<leftarrow> ns. idx x = Some g]"
  from t assms(5) have ne: "?ts \<noteq> []" by (auto simp: filter_empty_conv)
  then have m: "map_of sel g = Some ?ts" using group_tools_map_of [OF g, of g] by simp
  have c1: "count_list ?ts t = count_list ns t"
    using assms(5) by (induction ns) auto
  have c2: "count_list (map JStr ns) (JStr t) = count_list ns t"
    by (induction ns) auto
  have other: "\<forall>h us. (h, us) \<in> set sel \<and> h \<noteq> g \<longrightarrow> t \<notin> set us"
    using group_tools_filed_all [OF g] assms(5) by fastforce
  from sel m c1 c2 other names show ?thesis by auto
qed

theorem step2_keeps_multiplicity_witness:
  "step2_select (demo_env demo_twice) ready_world =
     (Inr (demo_index, JList [JStr ''web_search'', JStr ''web_search'']),
      ready_world\<lparr>console := [''selected'']\<rparr>) \<and>
   step2 (demo_env demo_twice) ready_world =
     (Inr (),
      ready_world\<lparr>console := [''selected''],
        task_recorder := (task_recorder ready_world)\<lparr>selected_tools :=
          Some [(''search'', [''web_search'', ''web_search''])]\<rparr>\<rparr>) \<and>
   count_list [JStr ''web_search'', JStr ''web_search''] (JStr ''web_search'') = 2 \<and>
   (\<exists>sel ts. selected_tools (task_recorder
        (ready_world\<lparr>console := [''selected''],
           task_recorder := (task_recorder ready_world)\<lparr>selected_tools :=
             Some [(''search'', [''web_search'', ''web_search''])]\<rparr>\<rparr>)) = Some sel \<and>
      map_of sel ''search'' = Some ts \<and>
      count_list ts ''web_search'' =
        count_list [JStr ''web_search'', JStr ''web_search''] (JStr ''web_search'') \<and>
      (\<forall>h us. (h, us) \<in> set sel \<and> h \<noteq> ''search'' \<longrightarrow> ''web_search'' \<notin> set us))"
proof -
  have it: "py_iter (JList [JStr ''web_search'', JStr ''web_search'']) =
      Inr [JStr ''web_search'', JStr ''web_search'']"
    by simp
  have mem: "JStr ''web_search'' \<in> set [JStr ''web_search'', JStr ''web_search'']"
    by simp
  have own: "demo_index ''web_search'' = Some ''search''"
    by (simp add: demo_index_def)
  have two: "count_list [JStr ''web_search'', JStr ''web_search''] (JStr ''web_search'') = 2"
    by simp
  show ?thesis
    by (intro conjI [OF demo_select [OF demo_loads_twice]] conjI [OF demo_step2_twice]
        conjI [OF two]
        step2_keeps_multiplicity [OF demo_select [OF demo_loads_twice] demo_step2_twice it mem own])
qed

text \<open>
  C6. When the parsed output is a list of names and one of them is no key of the reverse
  index, step 2 raises the KeyError of the first such name: nothing is skipped, no group
  is made up, and the record is left as the run of the agent left it.
\<close>

theorem step2_unknown_tool_fails:
  assumes "step2_select en w = (Inr (idx, v), w1)" and "py_iter v = Inr (map JStr names)"
    and "t \<in> set names" and "idx t = None"
  shows "step2 en w = (Inl (KeyError (JStr (hd [x \<leftarrow> names. idx x = None]))), w1)"
proof -
  from assms(3,4) have "\<exists>x \<in> set names. idx x = None" by blast
  then have "group_tools idx (map JStr names) [] =
      Inl (KeyError (JStr (hd [x \<leftarrow> names. idx x = None])))"
    by (rule group_tools_unknown)
  with assms(1,2) show ?thesis by (rule step2_Inl_group)
qed

theorem step2_unknown_tool_fails_witness:
  "step2_select (demo_env demo_unknown) ready_world =
     (Inr (demo_index, JList [JStr ''web_search'', JStr ''teleport'']),
      ready_world\<lparr>console := [''selected'']\<rparr>) \<and>
   demo_index ''teleport'' = None \<and>
   step2 (demo_env demo_unknown) ready_world =
     (Inl (KeyError (JStr ''teleport'')), ready_world\<lparr>console := [''selected'']\<rparr>)"
proof -
  have it: "py_iter (JList [JStr ''web_search'', JStr ''teleport'']) =
      Inr (map JStr [''web_search'', ''teleport''])"
    by simp
  have mem: "''teleport'' \<in> set [''web_search'', ''teleport'']"
    by simp
  have none: "demo_index ''teleport'' = None"
    by (simp add: demo_index_def)
  have first: "hd [x \<leftarrow> [''web_search'', ''teleport'']. demo_index x = None] = ''teleport''"
    by (simp add: demo_index_def)
  have "step2 (demo_env demo_unknown) ready_world =
      (Inl (KeyError (JStr ''teleport'')), ready_world\<lparr>console := [''selected'']\<rparr>)"
    using step2_unknown_tool_fails [OF demo_select [OF demo_loads_unknown] it mem none]
    unfolding first .
  with demo_select [OF demo_loads_unknown] none show ?thesis by (intro conjI)
qed

section \<open>What a step leaves unchanged\<close>

lemma preservesD: "preserves obs f \<Longrightarrow> obs (snd (f w)) = obs w"
  by (simp add: preserves_def)

lemma preserves_and_then:
  "preserves obs f \<Longrightarrow> (\<And>x. preserves obs (g x)) \<Longrightarrow> preserves obs (and_then f g)"
  unfolding preserves_def and_then_def
proof (intro allI)
  fix w
  assume f: "\<forall>w. obs (snd (f w)) = obs w" and g: "\<And>x. \<forall>w. obs (snd (g x w)) = obs w"
  obtain r w' where fw: "f w = (r, w')" by (cases "f w")
  from f have o: "obs w' = obs w" using fw by (metis snd_conv)
  show "obs (snd (case f w of (Inl e, w') \<Rightarrow> (Inl e, w') | (Inr x, w') \<Rightarrow> g x w')) = obs w"
    using fw o g by (cases r) simp_all
qed

lemma preserves_raise_or_return: "preserves obs (raise_or_return r)"
  by (simp add: preserves_def raise_or_return_def)

lemma preserves_read_field: "preserves obs (read_field fld)"
  by (simp add: preserves_def read_field_def split: option.splits)

lemma preserves_enter_agent: "preserves obs (enter_agent fld)"
  by (simp add: preserves_def enter_agent_def)

lemma preserves_run_streamed_agent:
  "(\<And>evs w. obs (process_streamed evs w) = obs w) \<Longrightarrow> preserves obs (run_streamed_agent en a input)"
  by (simp add: preserves_def run_streamed_agent_def split: prod.splits)

lemma preserves_return: "(\<And>w. obs (h w) = obs w) \<Longrightarrow> preserves obs (\<lambda>w. (r, h w))"
  by (simp add: preserves_def)

lemma preserves_case_prod:
  "(\<And>a b. preserves obs (g a b)) \<Longrightarrow> preserves obs (case x of (a, b) \<Rightarrow> g a b)"
  by (cases x) simp

lemma preserves_step2_select:
  "(\<And>evs w. obs (process_streamed evs w) = obs w) \<Longrightarrow> preserves obs (step2_select en)"
  unfolding step2_select_def
  by (intro preserves_and_then preserves_raise_or_return preserves_read_field
      preserves_enter_agent preserves_run_streamed_agent preserves_case_prod preserves_return) simp_all

lemma preserves_step2_group:
  "(\<And>sel w. obs (w\<lparr>task_recorder := (task_recorder w)\<lparr>selected_tools := Some sel\<rparr>\<rparr>) = obs w) \<Longrightarrow>
   preserves obs (step2_group idx v)"
  unfolding step2_group_def
  by (intro preserves_and_then preserves_raise_or_return preserves_return) simp_all

lemma preserves_step2:
  "(\<And>evs w. obs (process_streamed evs w) = obs w) \<Longrightarrow>
   (\<And>sel w. obs (w\<lparr>task_recorder := (task_recorder w)\<lparr>selected_tools := Some sel\<rparr>\<rparr>) = obs w) \<Longrightarrow>
   preserves obs (step2 en)"
  unfolding step2_def
  by (intro preserves_and_then preserves_step2_select preserves_case_prod preserves_step2_group)

lemma preserves_step3:
  "(\<And>evs w. obs (process_streamed evs w) = obs w) \<Longrightarrow>
   (\<And>out w. obs (w\<lparr>task_recorder := (task_recorder w)\<lparr>instructions := Some out\<rparr>\<rparr>) = obs w) \<Longrightarrow>
   preserves obs (step3 en)"
  unfolding step3_def
  by (intro preserves_and_then preserves_read_field preserves_enter_agent
      preserves_run_streamed_agent preserves_return) simp_all

lemma preserves_step4:
  assumes "\<And>evs w. obs (process_streamed evs w) = obs w"
    and "\<And>nm msgs w. obs (w\<lparr>warnings := msgs, task_recorder := (task_recorder w)\<lparr>name := Some nm\<rparr>\<rparr>) = obs w"
    and "\<And>nm w. obs (w\<lparr>task_recorder := (task_recorder w)\<lparr>name := Some nm\<rparr>\<rparr>) = obs w"
  shows "preserves obs (step4 en)"
  unfolding step4_def
  apply (intro preserves_and_then preserves_read_field preserves_enter_agent
      preserves_run_streamed_agent assms(1))
  apply (simp add: preserves_def assms(2,3))
  done

lemma preserves_write_text:
  "(\<And>p t w. obs (w\<lparr>files := (files w)(p \<mapsto> t)\<rparr>) = obs w) \<Longrightarrow> preserves obs (write_text en ofn txt)"
  by (simp add: preserves_def write_text_def)

lemma preserves_format_config:
  assumes "\<And>p t w. obs (w\<lparr>files := (files w)(p \<mapsto> t)\<rparr>) = obs w"
  shows "preserves obs (format_config en)"
  unfolding format_config_def
  apply (intro preserves_and_then preserves_read_field preserves_raise_or_return)
   apply (simp add: preserves_def write_text_def assms)
  apply (simp add: preserves_def)
  done

lemma process_streamed_requirements:
  "requirements (task_recorder (process_streamed evs w)) = requirements (task_recorder w)"
  by (simp add: process_streamed_def)

text \<open>
  C9. The requirements are set by step 1 only: a step 1 that returns has set them, one
  that raises has left them as they were, and steps 2, 3 and 4 and \<^verbatim>\<open>format_config\<close>
  leave the field as it was, whether they return or raise.
\<close>

theorem requirements_set_by_step1_only:
  "(case step1 en w of
      (Inr u, w') \<Rightarrow> requirements (task_recorder w') \<noteq> None
    | (Inl e, w') \<Rightarrow> requirements (task_recorder w') = requirements (task_recorder w)) \<and>
   requirements (task_recorder (snd (step2 en w))) = requirements (task_recorder w) \<and>
   requirements (task_recorder (snd (step3 en w))) = requirements (task_recorder w) \<and>
   requirements (task_recorder (snd (step4 en w))) = requirements (task_recorder w) \<and>
   requirements (task_recorder (snd (format_config en w))) = requirements (task_recorder w)"
proof -
  let ?obs = "\<lambda>w. requirements (task_recorder w)"
  have s1: "case step1 en w of
      (Inr u, w') \<Rightarrow> requirements (task_recorder w') \<noteq> None
    | (Inl e, w') \<Rightarrow> requirements (task_recorder w') = requirements (task_recorder w)"
    by (simp add: step1_def and_then_def raise_or_return_def enter_agent_def
        run_streamed_agent_def process_streamed_requirements
        split: sum.splits prod.splits)
  have s2: "preserves ?obs (step2 en)"
    by (rule preserves_step2) (simp_all add: process_streamed_requirements)
  have s3: "preserves ?obs (step3 en)"
    by (rule preserves_step3) (simp_all add: process_streamed_requirements)
  have s4: "preserves ?obs (step4 en)"
    by (rule preserves_step4) (simp_all add: process_streamed_requirements)
  have fc: "preserves ?obs (format_config en)"
    by (rule preserves_format_config) simp
  show ?thesis
    using s1 preservesD [OF s2, of w] preservesD [OF s3, of w] preservesD [OF s4, of w]
      preservesD [OF fc, of w]
    by (intro conjI)
qed

section \<open>Step 4: the stored name\<close>

lemma replace_spaces_no_space: "CHR '' '' \<notin> set (replace_spaces s)"
  by (auto simp: replace_spaces_def)

lemma length_replace_spaces: "length (replace_spaces s) = length s"
  by (simp add: replace_spaces_def)

lemma step4_result:
  assumes "get_agent w (agent_4 (self w)) = Inr a"
    and "requirements (task_recorder w) = Some req"
    and "run_agent en a req = (evs, Inr nm)"
  shows "step4 en w =
     (if 50 < length nm \<or> CHR '' '' \<in> set nm then
        (Inr (), (process_streamed evs w)\<lparr>warnings := warnings (process_streamed evs w) @
                     [''Generated name is too long or contains spaces: '' @ nm],
                   task_recorder := (task_recorder (process_streamed evs w))\<lparr>name := Some (replace_spaces (take 50 nm))\<rparr>\<rparr>)
      else (Inr (), (process_streamed evs w)\<lparr>task_recorder := (task_recorder (process_streamed evs w))\<lparr>name := Some nm\<rparr>\<rparr>))"
  using assms
  by (simp add: step4_def and_then_def enter_agent_def read_field_def run_streamed_agent_def)

lemma process_streamed_warnings: "warnings (process_streamed evs w) = warnings w"
  by (simp add: process_streamed_def)

text \<open>
  C3. When the name agent has answered, step 4 returns. A generated name longer than 50
  characters or with a space is stored as its first 50 characters with every space
  replaced by an underscore, and one warning is logged; any other name is stored as it is
  and nothing is logged. The stored name has at most 50 characters and no space.
\<close>

theorem step4_sanitizes_name:
  assumes "get_agent w (agent_4 (self w)) = Inr a"
    and "requirements (task_recorder w) = Some req"
    and "run_agent en a req = (evs, Inr nm)"
  shows "fst (step4 en w) = Inr () \<and>
         name (task_recorder (snd (step4 en w))) =
           Some (if 50 < length nm \<or> CHR '' '' \<in> set nm then replace_spaces (take 50 nm) else nm) \<and>
         warnings (snd (step4 en w)) =
           (if 50 < length nm \<or> CHR '' '' \<in> set nm
            then warnings w @ [''Generated name is too long or contains spaces: '' @ nm]
            else warnings w) \<and>
         (\<exists>s. name (task_recorder (snd (step4 en w))) = Some s \<and> length s \<le> 50 \<and>
              CHR '' '' \<notin> set s)"
proof (cases "50 < length nm \<or> CHR '' '' \<in> set nm")
  case True
  then show ?thesis
    unfolding step4_result [OF assms]
    by (simp add: process_streamed_warnings replace_spaces_no_space length_replace_spaces)
next
  case False
  then show ?thesis
    unfolding step4_result [OF assms]
    by (simp add: process_streamed_warnings)
qed

lemma named_world_agent:
  "get_agent named_world (agent_4 (self named_world)) =
     Inr \<lparr>agent_name = ''name_generation_agent'', agent_instructions = ''name'',
          agent_tools = [], stop_at_tool_names = []\<rparr>"
  by (simp add: get_agent_def named_world_def init_generator_def)

lemma named_world_requirements:
  "requirements (task_recorder named_world) = Some demo_requirements"
  by (simp add: named_world_def new_recorder_def)

lemma naming_env_run: "run_agent (naming_env nm) a req = ([''named''], Inr nm)"
  by (simp add: naming_env_def)

lemma long_name_long: "50 < length long_name \<or> CHR '' '' \<in> set long_name"
  by (simp add: long_name_def)

lemma long_name_sanitized:
  "replace_spaces (take 50 long_name) = ''a_very_long_name_with_spaces_that_exceeds_fifty_ch''"
  by (simp add: long_name_def replace_spaces_def)

theorem step4_sanitizes_name_witness:
  "name (task_recorder (snd (step4 (naming_env long_name) named_world))) =
     Some ''a_very_long_name_with_spaces_that_exceeds_fifty_ch'' \<and>
   warnings (snd (step4 (naming_env long_name) named_world)) =
     [''Generated name is too long or contains spaces: '' @ long_name] \<and>
   name (task_recorder (snd (step4 (naming_env ''shortname'') named_world))) = Some ''shortname'' \<and>
   warnings (snd (step4 (naming_env ''shortname'') named_world)) = []"
proof -
  have w0: "warnings named_world = []" by (simp add: named_world_def)
  have short: "\<not> (50 < length ''shortname'' \<or> CHR '' '' \<in> set ''shortname'')" by simp
  note a = step4_sanitizes_name [OF named_world_agent named_world_requirements
      naming_env_run [of long_name]]
  note b = step4_sanitizes_name [OF named_world_agent named_world_requirements
      naming_env_run [of "''shortname''"]]
  from a have a1: "name (task_recorder (snd (step4 (naming_env long_name) named_world))) =
     Some ''a_very_long_name_with_spaces_that_exceeds_fifty_ch''"
    by (simp only: long_name_long if_True long_name_sanitized)
  from a have a2: "warnings (snd (step4 (naming_env long_name) named_world)) =
     [''Generated name is too long or contains spaces: '' @ long_name]"
    by (simp only: long_name_long if_True w0 append_Nil)
  from b have b1: "name (task_recorder (snd (step4 (naming_env ''shortname'') named_world))) = Some ''shortname''"
    by (simp only: short if_False)
  from b have b2: "warnings (snd (step4 (naming_env ''shortname'') named_world)) = []"
    by (simp only: short if_False w0)
  from a1 a2 b1 b2 show ?thesis by (intro conjI)
qed

section \<open>build runs once\<close>

lemma build_initialized:
  "build en w = (Inr u, w') \<Longrightarrow> initialized (self w')"
  by (auto simp: build_def alloc_def Let_def split: if_splits sum.splits)

lemma build_again: "initialized (self w) \<Longrightarrow> build en w = (Inr (), w)"
  by (simp add: build_def)

text \<open>
  C7. After a call of \<^verbatim>\<open>build\<close> that returned, a second call returns at once and leaves
  the whole world as it was: nothing is allocated, and the toolkit and the four agent
  fields hold the same addresses as before.
\<close>

theorem build_idempotent:
  assumes "build en w = (Inr (), w')"
  shows "build en w' = (Inr (), w') \<and>
         next_ref (snd (build en w')) = next_ref w' \<and>
         heap (snd (build en w')) = heap w' \<and>
         interaction_toolkit (self (snd (build en w'))) = interaction_toolkit (self w') \<and>
         agent_1 (self (snd (build en w'))) = agent_1 (self w') \<and>
         agent_2 (self (snd (build en w'))) = agent_2 (self w') \<and>
         agent_3 (self (snd (build en w'))) = agent_3 (self w') \<and>
         agent_4 (self (snd (build en w'))) = agent_4 (self w')"
proof -
  have "build en w' = (Inr (), w')"
    by (rule build_again) (rule build_initialized [OF assms])
  then show ?thesis by simp
qed

lemma demo_build_fst: "fst (build (demo_env a) demo_world) = Inr ()"
  by (simp add: build_def demo_world_def init_generator_def demo_env_def get_template_def
      alloc_def Let_def)

lemma demo_build_allocates:
  "next_ref (snd (build (demo_env a) demo_world)) = 5 \<and>
   agent_1 (self (snd (build (demo_env a) demo_world))) = Some 1 \<and>
   agent_4 (self (snd (build (demo_env a) demo_world))) = Some 4"
  by (simp add: build_def demo_world_def init_generator_def demo_env_def get_template_def
      alloc_def Let_def)

theorem build_idempotent_witness:
  "build (demo_env demo_selection) demo_world =
     (Inr (), snd (build (demo_env demo_selection) demo_world)) \<and>
   next_ref demo_world = 0 \<and>
   next_ref (snd (build (demo_env demo_selection) demo_world)) = 5 \<and>
   agent_1 (self (snd (build (demo_env demo_selection) demo_world))) = Some 1 \<and>
   build (demo_env demo_selection) (snd (build (demo_env demo_selection) demo_world)) =
     (Inr (), snd (build (demo_env demo_selection) demo_world))"
proof -
  have h: "build (demo_env demo_selection) demo_world =
      (Inr (), snd (build (demo_env demo_selection) demo_world))"
    using demo_build_fst [of demo_selection] by (simp add: prod_eq_iff)
  have z: "next_ref demo_world = 0" by (simp add: demo_world_def)
  from build_idempotent [OF h] have again:
    "build (demo_env demo_selection) (snd (build (demo_env demo_selection) demo_world)) =
       (Inr (), snd (build (demo_env demo_selection) demo_world))"
    by (rule conjunct1)
  from h z demo_build_allocates [of demo_selection] again show ?thesis by (intro conjI) simp_all
qed

section \<open>A tool selection that cannot be parsed\<close>

lemma tool_selection_query:
  "py_format [(''available_tools'', x), (''requirement'', y)] TOOL_SELECTION_TEMPLATE =
     Inr (''<available_tools>\<newline>'' @ x @ ''\<newline></available_tools>\<newline><requirement>\<newline>'' @ y @
          ''\<newline></requirement>'')"
  by (simp add: TOOL_SELECTION_TEMPLATE_def)

lemma step2_select_parse_error:
  assumes "collect_tools (get_toolkits_map en available_toolkits) ([], Map.empty) = Inr (descs, idx)"
    and "requirements (task_recorder w) = Some req"
    and "get_agent w (agent_2 (self w)) = Inr a"
    and "run_agent en a
           (''<available_tools>\<newline>'' @ join [nl] descs @
            ''\<newline></available_tools>\<newline><requirement>\<newline>'' @ req @ ''\<newline></requirement>'') = (evs, Inr out)"
    and "json_loads en out = Inl e"
  shows "step2_select en w = (Inl e, process_streamed evs w)"
  using assms
  by (simp add: step2_select_def and_then_def raise_or_return_def read_field_def
      tool_selection_query enter_agent_def run_streamed_agent_def)

lemma build_files: "files (snd (build en w)) = files w"
  by (simp add: build_def alloc_def Let_def split: sum.splits)

lemma preserves_step1:
  "(\<And>evs w. obs (process_streamed evs w) = obs w) \<Longrightarrow>
   (\<And>out w. obs (w\<lparr>task_recorder := (task_recorder w)\<lparr>requirements := Some out\<rparr>\<rparr>) = obs w) \<Longrightarrow>
   preserves obs (step1 en)"
  unfolding step1_def
  by (intro preserves_and_then preserves_raise_or_return preserves_enter_agent
      preserves_run_streamed_agent preserves_return) simp_all

lemma process_streamed_files: "files (process_streamed evs w) = files w"
  by (simp add: process_streamed_def)

lemma process_streamed_selected:
  "selected_tools (task_recorder (process_streamed evs w)) = selected_tools (task_recorder w)"
  by (simp add: process_streamed_def)

text \<open>
  C4, as the code has it. When the tool-selection agent's final output is no JSON, so
  that \<^verbatim>\<open>json.loads\<close> raises, \<^verbatim>\<open>run\<close> ends with that error: the selection is never
  assigned, no other selection takes its place, and no file is written. An output that is
  JSON but no list of names is not refused by the parse: the loop iterates it as Python
  iterates the value, as the run on the empty object below shows.
\<close>

theorem run_parse_error:
  assumes "build en w = (Inr (), w1)"
    and "step1 en (w1\<lparr>task_recorder := new_recorder\<rparr>) = (Inr (), w2)"
    and "collect_tools (get_toolkits_map en available_toolkits) ([], Map.empty) = Inr (descs, idx)"
    and "requirements (task_recorder w2) = Some req"
    and "get_agent w2 (agent_2 (self w2)) = Inr a"
    and "run_agent en a
           (''<available_tools>\<newline>'' @ join [nl] descs @
            ''\<newline></available_tools>\<newline><requirement>\<newline>'' @ req @ ''\<newline></requirement>'') = (evs, Inr out)"
    and "json_loads en out = Inl e"
  shows "run en w = (Inl e, process_streamed evs w2) \<and>
         files (snd (run en w)) = files w \<and>
         selected_tools (task_recorder (snd (run en w))) = None"
proof -
  have sel: "step2_select en w2 = (Inl e, process_streamed evs w2)"
    by (rule step2_select_parse_error [OF assms(3-7)])
  then have s2: "step2 en w2 = (Inl e, process_streamed evs w2)"
    by (simp add: step2_def and_then_def)
  have r: "run en w = (Inl e, process_streamed evs w2)"
    using assms(1,2) s2 by (simp add: run_def and_then_def)
  have "files w1 = files w"
    using build_files [of en w] assms(1) by simp
  moreover have "files w2 = files (w1\<lparr>task_recorder := new_recorder\<rparr>)"
    using preservesD [OF preserves_step1, of files en "w1\<lparr>task_recorder := new_recorder\<rparr>"]
      assms(2) by (simp add: process_streamed_files)
  ultimately have f: "files (process_streamed evs w2) = files w"
    by (simp add: process_streamed_files)
  have "selected_tools (task_recorder w2) =
      selected_tools (task_recorder (w1\<lparr>task_recorder := new_recorder\<rparr>))"
    using preservesD [OF preserves_step1, of "\<lambda>w. selected_tools (task_recorder w)" en
        "w1\<lparr>task_recorder := new_recorder\<rparr>"] assms(2)
    by (simp add: process_streamed_selected)
  then have n: "selected_tools (task_recorder (process_streamed evs w2)) = None"
    by (simp add: process_streamed_selected new_recorder_def)
  from r f n show ?thesis by simp
qed


lemmas demo_defs = demo_env_def demo_world_def init_generator_def get_template_def alloc_def
  Let_def demo_agent_def demo_catalogue_def new_recorder_def demo_loads_def

lemmas stmt_defs = and_then_def raise_or_return_def read_field_def enter_agent_def get_agent_def
  run_streamed_agent_def process_streamed_def

lemma demo_step1_fst:
  "fst (step1 (demo_env a) ((snd (build (demo_env a) demo_world))\<lparr>task_recorder := new_recorder\<rparr>)) = Inr ()"
  by (simp add: step1_def build_def demo_defs stmt_defs)

lemma demo_after_step1:
  "requirements (task_recorder (snd (step1 (demo_env a)
       ((snd (build (demo_env a) demo_world))\<lparr>task_recorder := new_recorder\<rparr>)))) = Some demo_requirements \<and>
   get_agent (snd (step1 (demo_env a)
       ((snd (build (demo_env a) demo_world))\<lparr>task_recorder := new_recorder\<rparr>)))
     (agent_2 (self (snd (step1 (demo_env a)
       ((snd (build (demo_env a) demo_world))\<lparr>task_recorder := new_recorder\<rparr>))))) =
     Inr \<lparr>agent_name = ''tool_selection_agent'', agent_instructions = ''prompt of tools_selection.j2'',
          agent_tools = [], stop_at_tool_names = []\<rparr>"
  by (simp add: step1_def build_def demo_defs stmt_defs)

lemma demo_collect:
  "collect_tools (get_toolkits_map (demo_env a) available_toolkits) ([], Map.empty) =
     Inr ([''- web_search: search the web'', ''- pdf_reader: read a PDF''], demo_index)"
  by (simp add: demo_env_def demo_catalogue_def demo_index_def)

lemma demo_loads_nonsense: "json_loads (demo_env ''nonsense'') ''nonsense'' = Inl JSONDecodeError"
  by (simp add: demo_env_def demo_loads_def demo_selection_def demo_twice_def demo_unknown_def)

lemma demo_tool_agent:
  "run_agent (demo_env a)
     \<lparr>agent_name = ''tool_selection_agent'', agent_instructions = i, agent_tools = ts,
      stop_at_tool_names = st\<rparr> q = ([''selected''], Inr a)"
  by (simp add: demo_env_def demo_agent_def)

theorem run_parse_error_witness:
  "json_loads (demo_env ''nonsense'') ''nonsense'' = Inl JSONDecodeError \<and>
   fst (run (demo_env ''nonsense'') demo_world) = Inl JSONDecodeError \<and>
   files (snd (run (demo_env ''nonsense'') demo_world)) = files demo_world \<and>
   selected_tools (task_recorder (snd (run (demo_env ''nonsense'') demo_world))) = None"
proof -
  let ?E = "demo_env ''nonsense''"
  let ?W1 = "snd (build ?E demo_world)"
  let ?W2 = "snd (step1 ?E (?W1\<lparr>task_recorder := new_recorder\<rparr>))"
  have h1: "build ?E demo_world = (Inr (), ?W1)"
    using demo_build_fst [of "''nonsense''"] by (simp add: prod_eq_iff)
  have h2: "step1 ?E (?W1\<lparr>task_recorder := new_recorder\<rparr>) = (Inr (), ?W2)"
    using demo_step1_fst [of "''nonsense''"] by (simp add: prod_eq_iff)
  note h3 = demo_collect [of "''nonsense''"]
  note h4 = demo_after_step1 [of "''nonsense''", THEN conjunct1]
  note h5 = demo_after_step1 [of "''nonsense''", THEN conjunct2]
  note t = run_parse_error [OF h1 h2 h3 h4 h5 demo_tool_agent demo_loads_nonsense]
  from t have r: "fst (run ?E demo_world) = Inl JSONDecodeError" by simp
  note f = t [THEN conjunct2, THEN conjunct1]
  note n = t [THEN conjunct2, THEN conjunct2]
  show ?thesis by (intro conjI demo_loads_nonsense r f n)
qed

text \<open>
  The answer \<^verbatim>\<open>{}\<close> is JSON and no list of tool names; the run returns, with an empty
  selection and a written document.
\<close>

theorem empty_object_selection_counterexample:
  "(\<forall>q. run_agent (demo_env ''{}'')
          \<lparr>agent_name = ''tool_selection_agent'', agent_instructions = ''prompt of tools_selection.j2'',
           agent_tools = [], stop_at_tool_names = []\<rparr> q = ([''selected''], Inr ''{}'')) \<and>
   json_loads (demo_env ''{}'') ''{}'' = Inr (JDict []) \<and>
   (\<nexists>names. JDict [] = JList (map JStr names)) \<and>
   fst (run (demo_env ''{}'') demo_world) = Inr () \<and>
   selected_tools (task_recorder (snd (run (demo_env ''{}'') demo_world))) = Some [] \<and>
   (\<exists>txt. files (snd (run (demo_env ''{}'') demo_world))
            (''/utu/configs/agents/generated'', ''web_pdf_agent.yaml'') = Some txt)"
proof -
  have a: "\<forall>q. run_agent (demo_env ''{}'')
          \<lparr>agent_name = ''tool_selection_agent'', agent_instructions = ''prompt of tools_selection.j2'',
           agent_tools = [], stop_at_tool_names = []\<rparr> q = ([''selected''], Inr ''{}'')"
    by (simp add: demo_tool_agent)
  have b: "json_loads (demo_env ''{}'') ''{}'' = Inr (JDict [])"
    by (simp add: demo_env_def demo_loads_def demo_selection_def demo_twice_def demo_unknown_def)
  have c: "\<nexists>names. JDict [] = JList (map JStr names)"
    by simp
  have d: "fst (run (demo_env ''{}'') demo_world) = Inr () \<and>
      selected_tools (task_recorder (snd (run (demo_env ''{}'') demo_world))) = Some [] \<and>
      (\<exists>txt. files (snd (run (demo_env ''{}'') demo_world))
            (''/utu/configs/agents/generated'', ''web_pdf_agent.yaml'') = Some txt)"
    by (simp add: run_def step1_def step2_def step2_select_def step2_group_def step3_def step4_def
      format_config_def render_config_def write_text_def print_line_def build_def demo_defs stmt_defs
      TOOL_SELECTION_TEMPLATE_def CONFIG_TEMPLATE_def demo_selection_def demo_twice_def
      demo_unknown_def replace_spaces_def)
  from a b c d show ?thesis by (intro conjI) simp_all
qed

end
